theory Spec2Isabelle
  imports Main "HOL-Library.Char_ord" "HOL-Library.Sublist"
begin

section \<open>The translation gateway of \<open>app.py\<close>\<close>

text \<open>
  The program is a Flask application with one service object and two handlers. The
  embedding follows \<open>app.py\<close> function by function:
  \<^item> a Python \<open>str\<close> is a \<open>string\<close>, a \<open>dict\<close> is the list of its items in the order
    of insertion, read with \<open>map_of\<close>, and the parsed request body is a value of the
    datatype \<open>json\<close>;
  \<^item> every \<open>raise\<close> is a value: a function that can raise returns \<open>py_exn + 'a\<close>, and
    an exception that no \<open>except\<close> clause of the handler takes leaves the handler as \<open>Inl\<close>;
  \<^item> the Provider (\<open>translate_v3.TranslationServiceClient\<close>) is a parameter: a function
    from the outbound calls made so far and the present call to what the call does;
  \<^item> the outbound calls are an explicit list that each operation returns updated.
\<close>

subsection \<open>Strings\<close>

text \<open>
  \<open>str.lower\<close> on the ASCII letters; every other character is left as it is, so a
  string that holds one is no key of \<open>language_map\<close> after \<open>lower\<close>. (Python lower-cases
  characters outside ASCII too, but only two of them to something that holds a letter of
  ASCII: the Kelvin sign to \<open>k\<close>, which no key of \<open>language_map\<close> holds, and the dotted
  capital I to \<open>i\<close> followed by a combining dot, which no key holds either.) The stub
  Provider of the spec's example needs \<open>str.upper\<close>, modelled the same way.
\<close>

definition lower_char :: "char \<Rightarrow> char" where
  "lower_char c =
     (if CHR ''A'' \<le> c \<and> c \<le> CHR ''Z'' then char_of (of_char c + (32::nat)) else c)"

definition upper_char :: "char \<Rightarrow> char" where
  "upper_char c =
     (if CHR ''a'' \<le> c \<and> c \<le> CHR ''z'' then char_of (of_char c - (32::nat)) else c)"

definition lower :: "string \<Rightarrow> string" where
  "lower s = map lower_char s"

definition upper :: "string \<Rightarrow> string" where
  "upper s = map upper_char s"

subsection \<open>Values and exceptions\<close>

text \<open>
  What \<open>request.json\<close> yields: \<open>None\<close> for the body \<open>null\<close>, a \<open>dict\<close> for an object. A
  list of items in which a key occurs twice stands for the dictionary of the first
  occurrences. A number is an integer here: the handler does nothing with a number but
  test membership in it and call \<open>lower\<close> on it, and both raise for a \<open>float\<close> as they do
  for an \<open>int\<close>.
\<close>

type_synonym 'v dict = "(string \<times> 'v) list"

datatype json =
    JNull
  | JBool bool
  | JNum int
  | JStr string
  | JArr "json list"
  | JObj "(string \<times> json) list"

text \<open>
  The exceptions that reach a handler. \<open>ValueError\<close> and \<open>RuntimeError\<close> carry their
  \<open>str\<close>; \<open>KeyError\<close> carries the key. \<open>BaseException\<close> stands for an exception that is
  not of the class \<open>Exception\<close> (\<open>KeyboardInterrupt\<close>, \<open>SystemExit\<close>, \<open>GeneratorExit\<close>),
  given by its \<open>str\<close>.
\<close>

datatype py_exn =
    ValueError string
  | RuntimeError string
  | KeyError string
  | TypeError
  | AttributeError
  | BaseException string

text \<open>
  What the body of a \<open>try\<close> raises, by its \<open>str\<close>: an exception of the class
  \<open>Exception\<close>, which \<open>except Exception\<close> takes, or one outside that class, which it does
  not take.
\<close>

datatype raised =
    OfException string
  | NotOfException string

subsection \<open>The Provider\<close>

record provider_request =
  contents :: "json list"
  target_language_code :: string
  source_language_code :: string
  parent :: string
  mime_type :: string

record translation =
  translated_text :: string

text \<open>
  The response of the Provider. \<open>index_error\<close> is the \<open>str\<close> of the \<open>IndexError\<close> that
  its \<open>translations\<close> sequence (\<open>translations_seq\<close> here) raises when it is indexed out
  of range.
\<close>

record translate_text_response =
  translations_seq :: "translation list"
  index_error :: string

text \<open>
  A call raises an exception of the class \<open>Exception\<close> (\<open>Raises\<close>), or one outside that
  class (\<open>RaisesBase\<close>), each given by its \<open>str\<close>, or it returns. The outcome may depend
  on the calls made before, so a Provider that fails once and then answers is one of these
  functions.
\<close>

datatype provider_outcome =
    Raises string
  | RaisesBase string
  | Returns translate_text_response

type_synonym provider = "provider_request list \<Rightarrow> provider_request \<Rightarrow> provider_outcome"

subsection \<open>\<open>TranslationService\<close>\<close>

record language_details =
  code :: string
  full_name :: string

record TranslationService =
  language_map :: "language_details dict"
  project_id :: string
  client :: provider
  parent_path :: string

text \<open>
  \<open>__init__\<close>, lines 12 to 37. \<open>getenv\<close> is the value of \<open>os.getenv("PROJECT_ID")\<close>
  and \<open>the_client\<close> the object that \<open>TranslationServiceClient()\<close> returns.
\<close>

definition init :: "string option \<Rightarrow> provider \<Rightarrow> py_exn + TranslationService" where
  "init getenv the_client =
     (case getenv of
        None \<Rightarrow> Inl (ValueError ''PROJECT_ID environment variable must be set'')
      | Some pid \<Rightarrow>
          if pid = [] then Inl (ValueError ''PROJECT_ID environment variable must be set'')
          else Inr \<lparr>language_map =
                      [(''english'', \<lparr>code = ''en-GB'', full_name = ''English''\<rparr>),
                       (''twi'', \<lparr>code = ''ak'', full_name = ''Twi (Akan)''\<rparr>),
                       (''ga'', \<lparr>code = ''gaa'', full_name = ''Ga''\<rparr>),
                       (''ewe'', \<lparr>code = ''ee'', full_name = ''Ewe''\<rparr>)],
                    project_id = pid,
                    client = the_client,
                    parent_path = ''projects/'' @ pid @ ''/locations/global''\<rparr>)"

text \<open>
  The \<open>str\<close> of \<open>KeyError(k)\<close> is the \<open>repr\<close> of the key: the key between single quotes,
  for a key that holds no quote, backslash or control character.
\<close>

definition key_error_str :: "string \<Rightarrow> string" where
  "key_error_str k = [CHR 0x27] @ k @ [CHR 0x27]"

text \<open>
  Lines 66 to 71, the dictionary that \<open>translate_text\<close> returns, its items evaluated in
  the order they are written. \<open>Inl\<close> is the \<open>str\<close> of the exception raised on the way, an
  \<open>IndexError\<close> or a \<open>KeyError\<close>, both of the class \<open>Exception\<close>.
\<close>

definition result_dict ::
  "TranslationService \<Rightarrow> json \<Rightarrow> string \<Rightarrow> string \<Rightarrow> translate_text_response
     \<Rightarrow> string + json dict" where
  "result_dict self text source_lang target_lang response =
     (case translations_seq response of
        [] \<Rightarrow> Inl (index_error response)
      | t # _ \<Rightarrow>
          (case map_of (language_map self) source_lang of
             None \<Rightarrow> Inl (key_error_str source_lang)
           | Some sd \<Rightarrow>
               (case map_of (language_map self) target_lang of
                  None \<Rightarrow> Inl (key_error_str target_lang)
                | Some td \<Rightarrow>
                    Inr [(''original_text'', text),
                         (''translated_text'', JStr (translated_text t)),
                         (''source_language'', JStr (full_name sd)),
                         (''target_language'', JStr (full_name td))])))"

text \<open>Lines 59 to 63, the keyword arguments of the Provider call.\<close>

definition provider_call ::
  "TranslationService \<Rightarrow> json \<Rightarrow> string \<Rightarrow> string \<Rightarrow> provider_request" where
  "provider_call self text source_code target_code =
     \<lparr>contents = [text],
      target_language_code = target_code,
      source_language_code = source_code,
      parent = parent_path self,
      mime_type = ''text/plain''\<rparr>"

text \<open>
  Lines 57 to 73, the body of the second \<open>try\<close>: the call of the Provider, then the
  dictionary. The call joins \<open>calls\<close>, the outbound calls made so far, whatever it
  does. \<open>Inl\<close> is what the body raises.
\<close>

definition try_provider ::
  "TranslationService \<Rightarrow> provider_request list \<Rightarrow> json \<Rightarrow> string \<Rightarrow> string \<Rightarrow> string \<Rightarrow> string
     \<Rightarrow> (raised + json dict) \<times> provider_request list" where
  "try_provider self calls text source_lang target_lang source_code target_code =
     (case client self calls (provider_call self text source_code target_code) of
        Raises msg \<Rightarrow> Inl (OfException msg)
      | RaisesBase msg \<Rightarrow> Inl (NotOfException msg)
      | Returns response \<Rightarrow>
          (case result_dict self text source_lang target_lang response of
             Inl msg \<Rightarrow> Inl (OfException msg)
           | Inr d \<Rightarrow> Inr d),
      calls @ [provider_call self text source_code target_code])"

text \<open>
  \<open>translate_text\<close>, lines 39 to 73. The first \<open>try\<close> turns a missing key into
  \<open>ValueError\<close>, the second every exception of the class \<open>Exception\<close> into
  \<open>RuntimeError\<close>; an exception outside that class leaves \<open>translate_text\<close> as it is.
\<close>

definition translate_text ::
  "TranslationService \<Rightarrow> provider_request list \<Rightarrow> json \<Rightarrow> string \<Rightarrow> string
     \<Rightarrow> (py_exn + json dict) \<times> provider_request list" where
  "translate_text self calls text source_lang target_lang =
     (case map_of (language_map self) source_lang of
        None \<Rightarrow> (Inl (ValueError ''Invalid language names''), calls)
      | Some sd \<Rightarrow>
          (case map_of (language_map self) target_lang of
             None \<Rightarrow> (Inl (ValueError ''Invalid language names''), calls)
           | Some td \<Rightarrow>
               (case try_provider self calls text source_lang target_lang (code sd) (code td) of
                  (Inl (OfException msg), calls') \<Rightarrow>
                    (Inl (RuntimeError (''Translation error: '' @ msg)), calls')
                | (Inl (NotOfException msg), calls') \<Rightarrow> (Inl (BaseException msg), calls')
                | (Inr d, calls') \<Rightarrow> (Inr d, calls'))))"

text \<open>\<open>get_supported_languages\<close>, line 82: a new dictionary, built by comprehension.\<close>

definition get_supported_languages :: "TranslationService \<Rightarrow> string dict" where
  "get_supported_languages self =
     map (\<lambda>(lang, details). (lang, full_name details)) (language_map self)"

subsection \<open>The handlers\<close>

text \<open>
  The state between requests: the global \<open>translation_service\<close> and the outbound
  calls made so far.
\<close>

record app_state =
  translation_service :: TranslationService
  outbound :: "provider_request list"

record http_response =
  body :: json
  status :: nat

text \<open>\<open>jsonify\<close> of a dictionary of strings.\<close>

definition str_dict :: "string dict \<Rightarrow> json" where
  "str_dict d = JObj (map (\<lambda>(k, v). (k, JStr v)) d)"

definition error_body :: "string \<Rightarrow> json" where
  "error_body msg = str_dict [(''error'', msg)]"

text \<open>
  \<open>key in data\<close>: membership of the keys for a \<open>dict\<close>, of the elements for a \<open>list\<close>,
  substring for a \<open>str\<close>, \<open>TypeError\<close> for \<open>None\<close>, a \<open>bool\<close> or a number.
\<close>

fun contains :: "json \<Rightarrow> string \<Rightarrow> py_exn + bool" where
  "contains (JObj d) k = Inr (map_of d k \<noteq> None)"
| "contains (JArr xs) k = Inr (JStr k \<in> set xs)"
| "contains (JStr s) k = Inr (sublist k s)"
| "contains JNull k = Inl TypeError"
| "contains (JBool b) k = Inl TypeError"
| "contains (JNum n) k = Inl TypeError"

text \<open>\<open>all(key in data for key in keys)\<close>: it stops at the first key that is absent.\<close>

fun all_in :: "json \<Rightarrow> string list \<Rightarrow> py_exn + bool" where
  "all_in data [] = Inr True"
| "all_in data (k # ks) =
     (case contains data k of
        Inl e \<Rightarrow> Inl e
      | Inr found \<Rightarrow> if found then all_in data ks else Inr False)"

text \<open>\<open>data[key]\<close> with a \<open>str\<close> key: only a \<open>dict\<close> is indexed by one.\<close>

fun getitem :: "json \<Rightarrow> string \<Rightarrow> py_exn + json" where
  "getitem (JObj d) k = (case map_of d k of None \<Rightarrow> Inl (KeyError k) | Some v \<Rightarrow> Inr v)"
| "getitem other k = Inl TypeError"

text \<open>\<open>value.lower()\<close>: only a \<open>str\<close> has the method.\<close>

fun py_lower :: "json \<Rightarrow> py_exn + string" where
  "py_lower (JStr s) = Inr (lower s)"
| "py_lower other = Inl AttributeError"

text \<open>Lines 100 to 102, the arguments of the call, evaluated from left to right.\<close>

definition translate_args :: "json \<Rightarrow> py_exn + (json \<times> string \<times> string)" where
  "translate_args data =
     (case getitem data ''text'' of
        Inl e \<Rightarrow> Inl e
      | Inr text \<Rightarrow>
          (case getitem data ''source_lang'' of
             Inl e \<Rightarrow> Inl e
           | Inr src \<Rightarrow>
               (case py_lower src of
                  Inl e \<Rightarrow> Inl e
                | Inr source_lang \<Rightarrow>
                    (case getitem data ''target_lang'' of
                       Inl e \<Rightarrow> Inl e
                     | Inr tgt \<Rightarrow>
                         (case py_lower tgt of
                            Inl e \<Rightarrow> Inl e
                          | Inr target_lang \<Rightarrow> Inr (text, source_lang, target_lang))))))"

text \<open>
  Lines 107 to 110, the \<open>except\<close> clauses of the handler: \<open>ValueError\<close> is answered
  with 400, \<open>RuntimeError\<close> with 500, any other exception leaves the handler.
\<close>

fun except_clauses :: "py_exn \<Rightarrow> py_exn + http_response" where
  "except_clauses (ValueError msg) = Inr \<lparr>body = error_body msg, status = 400\<rparr>"
| "except_clauses (RuntimeError msg) = Inr \<lparr>body = error_body msg, status = 500\<rparr>"
| "except_clauses e = Inl e"

text \<open>\<open>translate\<close>, lines 86 to 110, on the parsed body \<open>data\<close>.\<close>

definition translate :: "app_state \<Rightarrow> json \<Rightarrow> (py_exn + http_response) \<times> app_state" where
  "translate s data =
     (case all_in data [''text'', ''source_lang'', ''target_lang''] of
        Inl e \<Rightarrow> (Inl e, s)
      | Inr present \<Rightarrow>
          if \<not> present then
            (Inr \<lparr>body = error_body
                     ''Missing required parameters: text, source_lang, target_lang'',
                  status = 400\<rparr>, s)
          else
            (case translate_args data of
               Inl e \<Rightarrow> (except_clauses e, s)
             | Inr (text, source_lang, target_lang) \<Rightarrow>
                 (case translate_text (translation_service s) (outbound s)
                         text source_lang target_lang of
                    (Inl e, calls') \<Rightarrow> (except_clauses e, s\<lparr>outbound := calls'\<rparr>)
                  | (Inr d, calls') \<Rightarrow>
                      (Inr \<lparr>body = JObj d, status = 200\<rparr>, s\<lparr>outbound := calls'\<rparr>))))"

text \<open>\<open>supported_languages\<close>, lines 112 to 117.\<close>

definition supported_languages :: "app_state \<Rightarrow> (py_exn + http_response) \<times> app_state" where
  "supported_languages s =
     (Inr \<lparr>body = str_dict (get_supported_languages (translation_service s)), status = 200\<rparr>, s)"

subsection \<open>A run of the application\<close>

datatype request = PostTranslate json | GetLanguages

fun handle :: "app_state \<Rightarrow> request \<Rightarrow> (py_exn + http_response) \<times> app_state" where
  "handle s (PostTranslate data) = translate s data"
| "handle s GetLanguages = supported_languages s"

fun run :: "app_state \<Rightarrow> request list \<Rightarrow> (py_exn + http_response) list \<times> app_state" where
  "run s [] = ([], s)"
| "run s (r # rs) =
     (case handle s r of
        (out, s') \<Rightarrow> (case run s' rs of (outs, s'') \<Rightarrow> (out # outs, s'')))"

text \<open>The stub Provider of the spec's example: it returns its input text in upper case.\<close>

fun upper_text :: "json \<Rightarrow> translation" where
  "upper_text (JStr s) = \<lparr>translated_text = upper s\<rparr>"
| "upper_text other = \<lparr>translated_text = []\<rparr>"

definition upper_stub :: provider where
  "upper_stub calls req =
     Returns \<lparr>translations_seq = map upper_text (contents req),
              index_error = ''list index out of range''\<rparr>"

text \<open>
  A stub Provider whose every call raises an exception of the class \<open>Exception\<close>, one
  whose every call raises \<open>KeyboardInterrupt("interrupted")\<close>, and one that returns no
  translation.
\<close>

definition failing_stub :: provider where
  "failing_stub calls req = Raises ''503 Service Unavailable''"

definition interrupt_stub :: provider where
  "interrupt_stub calls req = RaisesBase ''interrupted''"

definition empty_stub :: provider where
  "empty_stub calls req =
     Returns \<lparr>translations_seq = [], index_error = ''list index out of range''\<rparr>"

text \<open>
  The application as the module leaves it after line 84, before the first request, for a
  \<open>PROJECT_ID\<close> that is set and not empty (\<open>__init__\<close> raises otherwise, and there is no
  application).
\<close>

definition start :: "string \<Rightarrow> provider \<Rightarrow> app_state" where
  "start pid the_client =
     \<lparr>translation_service = projr (init (Some pid) the_client), outbound = []\<rparr>"

section \<open>Properties\<close>

subsection \<open>What each step of a request does\<close>



lemma all_in_object: "all_in (JObj d) ks = Inr (\<forall>k\<in>set ks. map_of d k \<noteq> None)"
  by (induction ks) auto

lemma translate_text_invalid:
  assumes "map_of (language_map self) a = None \<or> map_of (language_map self) b = None"
  shows "translate_text self calls text a b = (Inl (ValueError ''Invalid language names''), calls)"
  using assms by (auto simp: translate_text_def split: option.splits)

lemma py_lower_not_str: "(\<forall>x. v \<noteq> JStr x) \<Longrightarrow> py_lower v = Inl AttributeError"
  by (cases v) auto

lemma translate_not_str:
  assumes "map_of d ''text'' = Some text"
    and "map_of d ''source_lang'' = Some sv"
    and "map_of d ''target_lang'' = Some tv"
    and "(\<forall>x. sv \<noteq> JStr x) \<or> (\<forall>x. tv \<noteq> JStr x)"
  shows "translate s (JObj d) = (Inl AttributeError, s)"
proof (cases "\<forall>x. sv \<noteq> JStr x")
  case True
  then show ?thesis using assms(1-3)
    by (simp add: translate_def all_in_object translate_args_def py_lower_not_str)
next
  case False
  then obtain x where sv: "sv = JStr x" by blast
  with assms(4) have "py_lower tv = Inl AttributeError"
    by (simp add: py_lower_not_str)
  with sv show ?thesis using assms(1-3)
    by (simp add: translate_def all_in_object translate_args_def)
qed

lemma translate_not_object:
  assumes "\<forall>d. data \<noteq> JObj d"
  shows "snd (translate s data) = s"
  using assms
  by (cases data) (auto simp: translate_def translate_args_def split: sum.splits)

lemma translate_text_resolved:
  assumes "map_of (language_map self) a = Some sd" and "map_of (language_map self) b = Some td"
  shows "translate_text self calls text a b =
     (case client self calls (provider_call self text (code sd) (code td)) of
        Raises msg \<Rightarrow> Inl (RuntimeError (''Translation error: '' @ msg))
      | RaisesBase msg \<Rightarrow> Inl (BaseException msg)
      | Returns response \<Rightarrow>
          (case translations_seq response of
             [] \<Rightarrow> Inl (RuntimeError (''Translation error: '' @ index_error response))
           | t # _ \<Rightarrow>
               Inr [(''original_text'', text),
                    (''translated_text'', JStr (translated_text t)),
                    (''source_language'', JStr (full_name sd)),
                    (''target_language'', JStr (full_name td))]),
      calls @ [provider_call self text (code sd) (code td)])"
  using assms
  by (simp add: translate_text_def try_provider_def result_dict_def
           split: provider_outcome.splits list.splits)

lemma translate_object:
  assumes "map_of d ''text'' = Some text"
    and "map_of d ''source_lang'' = Some (JStr a)"
    and "map_of d ''target_lang'' = Some (JStr b)"
  shows "translate s (JObj d) =
     (case translate_text (translation_service s) (outbound s) text (lower a) (lower b) of
        (Inl e, calls') \<Rightarrow> (except_clauses e, s\<lparr>outbound := calls'\<rparr>)
      | (Inr r, calls') \<Rightarrow> (Inr \<lparr>body = JObj r, status = 200\<rparr>, s\<lparr>outbound := calls'\<rparr>))"
  using assms by (simp add: translate_def all_in_object translate_args_def)

lemma translate_missing:
  assumes "map_of d ''text'' = None \<or> map_of d ''source_lang'' = None
             \<or> map_of d ''target_lang'' = None"
  shows "translate s (JObj d) =
     (Inr \<lparr>body = error_body ''Missing required parameters: text, source_lang, target_lang'',
           status = 400\<rparr>, s)"
  using assms by (auto simp: translate_def all_in_object)

lemma translate_service: "translation_service (snd (translate s data)) = translation_service s"
  by (auto simp: translate_def split: sum.splits prod.splits)

subsection \<open>The service that \<open>__init__\<close> builds\<close>

lemma init_Inr:
  assumes "init getenv the_client = Inr self"
  shows "language_map self =
           [(''english'', \<lparr>code = ''en-GB'', full_name = ''English''\<rparr>),
            (''twi'', \<lparr>code = ''ak'', full_name = ''Twi (Akan)''\<rparr>),
            (''ga'', \<lparr>code = ''gaa'', full_name = ''Ga''\<rparr>),
            (''ewe'', \<lparr>code = ''ee'', full_name = ''Ewe''\<rparr>)]"
  using assms by (auto simp: init_def split: option.splits if_splits)

lemma init_demo:
  "init (Some ''demo'') c = Inr (translation_service (start ''demo'' c))"
  by (simp add: start_def init_def)

subsection \<open>The Registry\<close>

text \<open>
  Claim C2. The \<open>language_map\<close> that \<open>__init__\<close> builds has exactly four entries, under
  four different keys; \<open>english\<close>, \<open>twi\<close>, \<open>ga\<close> and \<open>ewe\<close> resolve to the code and the
  display name of the table in the spec; every key is made of lower-case letters only
  (so \<open>lower\<close> leaves it as it is) and no code or display name is empty.
\<close>

theorem registry_entries:
  assumes "init getenv the_client = Inr self"
  shows "length (language_map self) = 4
    \<and> distinct (map fst (language_map self))
    \<and> set (map fst (language_map self)) = {''english'', ''twi'', ''ga'', ''ewe''}
    \<and> map_of (language_map self) ''english'' = Some \<lparr>code = ''en-GB'', full_name = ''English''\<rparr>
    \<and> map_of (language_map self) ''twi'' = Some \<lparr>code = ''ak'', full_name = ''Twi (Akan)''\<rparr>
    \<and> map_of (language_map self) ''ga'' = Some \<lparr>code = ''gaa'', full_name = ''Ga''\<rparr>
    \<and> map_of (language_map self) ''ewe'' = Some \<lparr>code = ''ee'', full_name = ''Ewe''\<rparr>
    \<and> (\<forall>k d. (k, d) \<in> set (language_map self) \<longrightarrow>
          lower k = k \<and> (\<forall>c \<in> set k. CHR ''a'' \<le> c \<and> c \<le> CHR ''z'')
          \<and> code d \<noteq> [] \<and> full_name d \<noteq> [])"
proof -
  have low: "lower ''english'' = ''english''" "lower ''twi'' = ''twi''"
    "lower ''ga'' = ''ga''" "lower ''ewe'' = ''ewe''"
    by code_simp+
  show ?thesis
    unfolding init_Inr [OF assms] using low by auto
qed

theorem registry_entries_witness:
  "init (Some ''demo'') upper_stub = Inr (translation_service (start ''demo'' upper_stub))
   \<and> length (language_map (translation_service (start ''demo'' upper_stub))) = 4
   \<and> map_of (language_map (translation_service (start ''demo'' upper_stub))) ''twi''
        = Some \<lparr>code = ''ak'', full_name = ''Twi (Akan)''\<rparr>"
  using registry_entries [OF init_demo [of upper_stub]] init_demo [of upper_stub] by simp

subsection \<open>A successful translation\<close>

text \<open>
  Claim C1. When both language keys resolve and the Provider returns at least one
  translation, \<open>translate_text\<close> returns the dictionary whose \<open>original_text\<close> is the
  input text as given, whose \<open>translated_text\<close> is the text of the first translation the
  Provider returned, and whose \<open>source_language\<close> and \<open>target_language\<close> are the
  \<open>full_name\<close> (not the \<open>code\<close>) of the two entries; the handler answers with that
  dictionary and status 200. With the stub Provider that returns its input in upper
  case, the request for \<open>hello\<close> from \<open>english\<close> to \<open>twi\<close> is answered with \<open>HELLO\<close>,
  \<open>English\<close> and \<open>Twi (Akan)\<close>, status 200.
\<close>

theorem translate_success:
  "(map_of (language_map self) source_lang = Some sd
      \<and> map_of (language_map self) target_lang = Some td
      \<and> client self calls (provider_call self text (code sd) (code td)) = Returns response
      \<and> translations_seq response = t # ts
    \<longrightarrow> fst (translate_text self calls text source_lang target_lang) =
          Inr [(''original_text'', text),
               (''translated_text'', JStr (translated_text t)),
               (''source_language'', JStr (full_name sd)),
               (''target_language'', JStr (full_name td))])
   \<and> (map_of d ''text'' = Some text'
      \<and> map_of d ''source_lang'' = Some (JStr a)
      \<and> map_of d ''target_lang'' = Some (JStr b)
      \<and> map_of (language_map (translation_service s)) (lower a) = Some sd'
      \<and> map_of (language_map (translation_service s)) (lower b) = Some td'
      \<and> client (translation_service s) (outbound s)
            (provider_call (translation_service s) text' (code sd') (code td')) = Returns response'
      \<and> translations_seq response' = t' # ts'
    \<longrightarrow> fst (translate s (JObj d)) =
          Inr \<lparr>body = JObj [(''original_text'', text'),
                            (''translated_text'', JStr (translated_text t')),
                            (''source_language'', JStr (full_name sd')),
                            (''target_language'', JStr (full_name td'))],
               status = 200\<rparr>)
   \<and> fst (translate (start ''demo'' upper_stub)
             (JObj [(''text'', JStr ''hello''),
                    (''source_lang'', JStr ''english''),
                    (''target_lang'', JStr ''twi'')])) =
       Inr \<lparr>body = JObj [(''original_text'', JStr ''hello''),
                         (''translated_text'', JStr ''HELLO''),
                         (''source_language'', JStr ''English''),
                         (''target_language'', JStr ''Twi (Akan)'')],
            status = 200\<rparr>"
proof (intro conjI impI)
  assume "map_of (language_map self) source_lang = Some sd
      \<and> map_of (language_map self) target_lang = Some td
      \<and> client self calls (provider_call self text (code sd) (code td)) = Returns response
      \<and> translations_seq response = t # ts"
  then show "fst (translate_text self calls text source_lang target_lang) =
          Inr [(''original_text'', text),
               (''translated_text'', JStr (translated_text t)),
               (''source_language'', JStr (full_name sd)),
               (''target_language'', JStr (full_name td))]"
    by (simp add: translate_text_resolved)
next
  assume "map_of d ''text'' = Some text'
      \<and> map_of d ''source_lang'' = Some (JStr a)
      \<and> map_of d ''target_lang'' = Some (JStr b)
      \<and> map_of (language_map (translation_service s)) (lower a) = Some sd'
      \<and> map_of (language_map (translation_service s)) (lower b) = Some td'
      \<and> client (translation_service s) (outbound s)
            (provider_call (translation_service s) text' (code sd') (code td')) = Returns response'
      \<and> translations_seq response' = t' # ts'"
  then show "fst (translate s (JObj d)) =
          Inr \<lparr>body = JObj [(''original_text'', text'),
                            (''translated_text'', JStr (translated_text t')),
                            (''source_language'', JStr (full_name sd')),
                            (''target_language'', JStr (full_name td'))],
               status = 200\<rparr>"
    by (simp add: translate_object translate_text_resolved)
next
  show "fst (translate (start ''demo'' upper_stub)
             (JObj [(''text'', JStr ''hello''),
                    (''source_lang'', JStr ''english''),
                    (''target_lang'', JStr ''twi'')])) =
       Inr \<lparr>body = JObj [(''original_text'', JStr ''hello''),
                         (''translated_text'', JStr ''HELLO''),
                         (''source_language'', JStr ''English''),
                         (''target_language'', JStr ''Twi (Akan)'')],
            status = 200\<rparr>"
    by code_simp
qed

theorem translate_success_witness:
  "(map_of (language_map (translation_service (start ''demo'' upper_stub))) ''ga''
        = Some \<lparr>code = ''gaa'', full_name = ''Ga''\<rparr>
      \<and> map_of (language_map (translation_service (start ''demo'' upper_stub))) ''ewe''
        = Some \<lparr>code = ''ee'', full_name = ''Ewe''\<rparr>
      \<and> client (translation_service (start ''demo'' upper_stub)) []
            (provider_call (translation_service (start ''demo'' upper_stub)) (JStr ''good day'')
               (code \<lparr>code = ''gaa'', full_name = ''Ga''\<rparr>)
               (code \<lparr>code = ''ee'', full_name = ''Ewe''\<rparr>))
          = Returns \<lparr>translations_seq = [\<lparr>translated_text = ''GOOD DAY''\<rparr>],
                     index_error = ''list index out of range''\<rparr>
      \<and> translations_seq \<lparr>translations_seq = [\<lparr>translated_text = ''GOOD DAY''\<rparr>],
                     index_error = ''list index out of range''\<rparr> = \<lparr>translated_text = ''GOOD DAY''\<rparr> # [])
   \<and> fst (translate_text (translation_service (start ''demo'' upper_stub)) [] (JStr ''good day'')
            ''ga'' ''ewe'') =
       Inr [(''original_text'', JStr ''good day''),
            (''translated_text'', JStr ''GOOD DAY''),
            (''source_language'', JStr ''Ga''),
            (''target_language'', JStr ''Ewe'')]"
proof -
  have h: "map_of (language_map (translation_service (start ''demo'' upper_stub))) ''ga''
        = Some \<lparr>code = ''gaa'', full_name = ''Ga''\<rparr>
      \<and> map_of (language_map (translation_service (start ''demo'' upper_stub))) ''ewe''
        = Some \<lparr>code = ''ee'', full_name = ''Ewe''\<rparr>
      \<and> client (translation_service (start ''demo'' upper_stub)) []
            (provider_call (translation_service (start ''demo'' upper_stub)) (JStr ''good day'')
               (code \<lparr>code = ''gaa'', full_name = ''Ga''\<rparr>)
               (code \<lparr>code = ''ee'', full_name = ''Ewe''\<rparr>))
          = Returns \<lparr>translations_seq = [\<lparr>translated_text = ''GOOD DAY''\<rparr>],
                     index_error = ''list index out of range''\<rparr>
      \<and> translations_seq \<lparr>translations_seq = [\<lparr>translated_text = ''GOOD DAY''\<rparr>],
                     index_error = ''list index out of range''\<rparr> = \<lparr>translated_text = ''GOOD DAY''\<rparr> # []"
    by code_simp
  from translate_success [THEN conjunct1, rule_format, OF h] h show ?thesis
    by simp
qed

subsection \<open>Unknown language names\<close>

text \<open>
  Claim C3. When the source key or the target key (as the handler passes them, in lower
  case) is absent from \<open>language_map\<close>, \<open>translate_text\<close> raises the one
  \<open>ValueError\<close> \<open>Invalid language names\<close>, whichever key is absent, and calls no Provider;
  the handler answers with status 400 and the body \<open>{"error": "Invalid language names"}\<close>,
  and leaves the state as it was.
\<close>

theorem invalid_language:
  "(map_of (language_map self) source_lang = None \<or> map_of (language_map self) target_lang = None
    \<longrightarrow> translate_text self calls text source_lang target_lang =
          (Inl (ValueError ''Invalid language names''), calls))
   \<and> (map_of d ''text'' = Some text'
      \<and> map_of d ''source_lang'' = Some (JStr a)
      \<and> map_of d ''target_lang'' = Some (JStr b)
      \<and> (map_of (language_map (translation_service s)) (lower a) = None
           \<or> map_of (language_map (translation_service s)) (lower b) = None)
    \<longrightarrow> translate s (JObj d) =
          (Inr \<lparr>body = JObj [(''error'', JStr ''Invalid language names'')], status = 400\<rparr>, s))"
proof (intro conjI impI)
  assume "map_of (language_map self) source_lang = None
            \<or> map_of (language_map self) target_lang = None"
  then show "translate_text self calls text source_lang target_lang =
          (Inl (ValueError ''Invalid language names''), calls)"
    by (rule translate_text_invalid)
next
  assume h: "map_of d ''text'' = Some text'
      \<and> map_of d ''source_lang'' = Some (JStr a)
      \<and> map_of d ''target_lang'' = Some (JStr b)
      \<and> (map_of (language_map (translation_service s)) (lower a) = None
           \<or> map_of (language_map (translation_service s)) (lower b) = None)"
  then have "translate_text (translation_service s) (outbound s) text' (lower a) (lower b) =
          (Inl (ValueError ''Invalid language names''), outbound s)"
    by (simp add: translate_text_invalid)
  with h show "translate s (JObj d) =
          (Inr \<lparr>body = JObj [(''error'', JStr ''Invalid language names'')], status = 400\<rparr>, s)"
    by (simp add: translate_object error_body_def str_dict_def)
qed

theorem invalid_language_witness:
  "(map_of [(''text'', JStr ''hello''), (''source_lang'', JStr ''Klingon''),
            (''target_lang'', JStr ''twi'')] ''text'' = Some (JStr ''hello'')
      \<and> map_of [(''text'', JStr ''hello''), (''source_lang'', JStr ''Klingon''),
            (''target_lang'', JStr ''twi'')] ''source_lang'' = Some (JStr ''Klingon'')
      \<and> map_of [(''text'', JStr ''hello''), (''source_lang'', JStr ''Klingon''),
            (''target_lang'', JStr ''twi'')] ''target_lang'' = Some (JStr ''twi'')
      \<and> (map_of (language_map (translation_service (start ''demo'' upper_stub)))
             (lower ''Klingon'') = None
           \<or> map_of (language_map (translation_service (start ''demo'' upper_stub)))
             (lower ''twi'') = None))
   \<and> translate (start ''demo'' upper_stub)
        (JObj [(''text'', JStr ''hello''), (''source_lang'', JStr ''Klingon''),
               (''target_lang'', JStr ''twi'')]) =
       (Inr \<lparr>body = JObj [(''error'', JStr ''Invalid language names'')], status = 400\<rparr>,
        start ''demo'' upper_stub)"
proof -
  have h: "map_of [(''text'', JStr ''hello''), (''source_lang'', JStr ''Klingon''),
            (''target_lang'', JStr ''twi'')] ''text'' = Some (JStr ''hello'')
      \<and> map_of [(''text'', JStr ''hello''), (''source_lang'', JStr ''Klingon''),
            (''target_lang'', JStr ''twi'')] ''source_lang'' = Some (JStr ''Klingon'')
      \<and> map_of [(''text'', JStr ''hello''), (''source_lang'', JStr ''Klingon''),
            (''target_lang'', JStr ''twi'')] ''target_lang'' = Some (JStr ''twi'')
      \<and> (map_of (language_map (translation_service (start ''demo'' upper_stub)))
             (lower ''Klingon'') = None
           \<or> map_of (language_map (translation_service (start ''demo'' upper_stub)))
             (lower ''twi'') = None)"
    by code_simp
  from invalid_language [THEN conjunct2, rule_format, OF h] h show ?thesis
    by simp
qed

subsection \<open>Missing parameters\<close>

text \<open>
  Claim C4. When the body is an object that lacks \<open>text\<close>, \<open>source_lang\<close> or
  \<open>target_lang\<close>, the handler answers with status 400 and the body
  \<open>{"error": "Missing required parameters: text, source_lang, target_lang"}\<close>, and leaves
  the state as it was: no key is resolved and no Provider is called. So a body that
  lacks \<open>text\<close> and names an unknown language gets this answer, not the one for an
  unknown language.
\<close>

theorem missing_parameters:
  "(map_of d ''text'' = None \<or> map_of d ''source_lang'' = None \<or> map_of d ''target_lang'' = None
    \<longrightarrow> translate s (JObj d) =
          (Inr \<lparr>body = JObj [(''error'',
                    JStr ''Missing required parameters: text, source_lang, target_lang'')],
                status = 400\<rparr>, s))
   \<and> translate (start ''demo'' upper_stub)
        (JObj [(''source_lang'', JStr ''klingon''), (''target_lang'', JStr ''twi'')]) =
       (Inr \<lparr>body = JObj [(''error'',
                 JStr ''Missing required parameters: text, source_lang, target_lang'')],
             status = 400\<rparr>, start ''demo'' upper_stub)"
proof (intro conjI impI)
  assume "map_of d ''text'' = None \<or> map_of d ''source_lang'' = None
            \<or> map_of d ''target_lang'' = None"
  then show "translate s (JObj d) =
          (Inr \<lparr>body = JObj [(''error'',
                    JStr ''Missing required parameters: text, source_lang, target_lang'')],
                status = 400\<rparr>, s)"
    by (simp add: translate_missing error_body_def str_dict_def)
next
  have "map_of [(''source_lang'', JStr ''klingon''), (''target_lang'', JStr ''twi'')] ''text''
          = None"
    by simp
  then show "translate (start ''demo'' upper_stub)
        (JObj [(''source_lang'', JStr ''klingon''), (''target_lang'', JStr ''twi'')]) =
       (Inr \<lparr>body = JObj [(''error'',
                 JStr ''Missing required parameters: text, source_lang, target_lang'')],
             status = 400\<rparr>, start ''demo'' upper_stub)"
    by (simp add: translate_missing error_body_def str_dict_def)
qed

theorem missing_parameters_witness:
  "(map_of [(''text'', JStr ''hello''), (''source_lang'', JStr ''english'')] ''text'' = None
      \<or> map_of [(''text'', JStr ''hello''), (''source_lang'', JStr ''english'')] ''source_lang''
           = None
      \<or> map_of [(''text'', JStr ''hello''), (''source_lang'', JStr ''english'')] ''target_lang''
           = None)
   \<and> translate (start ''demo'' failing_stub)
        (JObj [(''text'', JStr ''hello''), (''source_lang'', JStr ''english'')]) =
       (Inr \<lparr>body = JObj [(''error'',
                 JStr ''Missing required parameters: text, source_lang, target_lang'')],
             status = 400\<rparr>, start ''demo'' failing_stub)"
proof -
  have h: "map_of [(''text'', JStr ''hello''), (''source_lang'', JStr ''english'')] ''text'' = None
      \<or> map_of [(''text'', JStr ''hello''), (''source_lang'', JStr ''english'')] ''source_lang''
           = None
      \<or> map_of [(''text'', JStr ''hello''), (''source_lang'', JStr ''english'')] ''target_lang''
           = None"
    by simp
  from missing_parameters [THEN conjunct1, rule_format, OF h] h show ?thesis
    by simp
qed

subsection \<open>A failing Provider\<close>

text \<open>
  Claim C5, as amended. When both language keys resolve and the Provider call raises an
  exception of the class \<open>Exception\<close>, \<open>translate_text\<close> raises \<open>RuntimeError\<close> with the
  message \<open>Translation error: \<close> followed by the \<open>str\<close> of that exception, and the
  handler answers with status 500 and the body
  \<open>{"error": "Translation error: <message>"}\<close>: an answer, not an exception leaving the
  handler, and not the 400 of an unknown language. An exception that is not of the class
  \<open>Exception\<close> is not caught: it leaves \<open>translate_text\<close> and the handler.
\<close>

theorem provider_failure:
  "(map_of (language_map self) source_lang = Some sd
      \<and> map_of (language_map self) target_lang = Some td
      \<and> client self calls (provider_call self text (code sd) (code td)) = Raises msg
    \<longrightarrow> fst (translate_text self calls text source_lang target_lang) =
          Inl (RuntimeError (''Translation error: '' @ msg))
        \<and> fst (translate_text self calls text source_lang target_lang) \<noteq>
          Inl (ValueError ''Invalid language names''))
   \<and> (map_of d ''text'' = Some text'
      \<and> map_of d ''source_lang'' = Some (JStr a)
      \<and> map_of d ''target_lang'' = Some (JStr b)
      \<and> map_of (language_map (translation_service s)) (lower a) = Some sd'
      \<and> map_of (language_map (translation_service s)) (lower b) = Some td'
      \<and> client (translation_service s) (outbound s)
            (provider_call (translation_service s) text' (code sd') (code td')) = Raises msg'
    \<longrightarrow> fst (translate s (JObj d)) =
          Inr \<lparr>body = JObj [(''error'', JStr (''Translation error: '' @ msg'))],
               status = 500\<rparr>)
   \<and> (map_of d ''text'' = Some text'
      \<and> map_of d ''source_lang'' = Some (JStr a)
      \<and> map_of d ''target_lang'' = Some (JStr b)
      \<and> map_of (language_map (translation_service s)) (lower a) = Some sd'
      \<and> map_of (language_map (translation_service s)) (lower b) = Some td'
      \<and> client (translation_service s) (outbound s)
            (provider_call (translation_service s) text' (code sd') (code td')) = RaisesBase msg'
    \<longrightarrow> fst (translate_text (translation_service s) (outbound s) text' (lower a) (lower b)) =
          Inl (BaseException msg')
        \<and> fst (translate s (JObj d)) = Inl (BaseException msg'))"
proof (intro conjI impI)
  assume h: "map_of (language_map self) source_lang = Some sd
      \<and> map_of (language_map self) target_lang = Some td
      \<and> client self calls (provider_call self text (code sd) (code td)) = Raises msg"
  then show "fst (translate_text self calls text source_lang target_lang) =
          Inl (RuntimeError (''Translation error: '' @ msg))"
    by (simp add: translate_text_resolved)
  then show "fst (translate_text self calls text source_lang target_lang) \<noteq>
          Inl (ValueError ''Invalid language names'')"
    by simp
next
  assume "map_of d ''text'' = Some text'
      \<and> map_of d ''source_lang'' = Some (JStr a)
      \<and> map_of d ''target_lang'' = Some (JStr b)
      \<and> map_of (language_map (translation_service s)) (lower a) = Some sd'
      \<and> map_of (language_map (translation_service s)) (lower b) = Some td'
      \<and> client (translation_service s) (outbound s)
            (provider_call (translation_service s) text' (code sd') (code td')) = Raises msg'"
  then show "fst (translate s (JObj d)) =
          Inr \<lparr>body = JObj [(''error'', JStr (''Translation error: '' @ msg'))],
               status = 500\<rparr>"
    by (simp add: translate_object translate_text_resolved error_body_def str_dict_def)
next
  assume b: "map_of d ''text'' = Some text'
      \<and> map_of d ''source_lang'' = Some (JStr a)
      \<and> map_of d ''target_lang'' = Some (JStr b)
      \<and> map_of (language_map (translation_service s)) (lower a) = Some sd'
      \<and> map_of (language_map (translation_service s)) (lower b) = Some td'
      \<and> client (translation_service s) (outbound s)
            (provider_call (translation_service s) text' (code sd') (code td')) = RaisesBase msg'"
  then show "fst (translate_text (translation_service s) (outbound s) text' (lower a) (lower b)) =
          Inl (BaseException msg')"
    by (simp add: translate_text_resolved)
  from b show "fst (translate s (JObj d)) = Inl (BaseException msg')"
    by (simp add: translate_object translate_text_resolved)
qed

theorem provider_failure_witness:
  "(map_of [(''text'', JStr ''hello''), (''source_lang'', JStr ''english''),
            (''target_lang'', JStr ''Ewe'')] ''text'' = Some (JStr ''hello'')
      \<and> map_of [(''text'', JStr ''hello''), (''source_lang'', JStr ''english''),
            (''target_lang'', JStr ''Ewe'')] ''source_lang'' = Some (JStr ''english'')
      \<and> map_of [(''text'', JStr ''hello''), (''source_lang'', JStr ''english''),
            (''target_lang'', JStr ''Ewe'')] ''target_lang'' = Some (JStr ''Ewe'')
      \<and> map_of (language_map (translation_service (start ''demo'' failing_stub)))
            (lower ''english'') = Some \<lparr>code = ''en-GB'', full_name = ''English''\<rparr>
      \<and> map_of (language_map (translation_service (start ''demo'' failing_stub)))
            (lower ''Ewe'') = Some \<lparr>code = ''ee'', full_name = ''Ewe''\<rparr>
      \<and> client (translation_service (start ''demo'' failing_stub))
            (outbound (start ''demo'' failing_stub))
            (provider_call (translation_service (start ''demo'' failing_stub)) (JStr ''hello'')
               (code \<lparr>code = ''en-GB'', full_name = ''English''\<rparr>)
               (code \<lparr>code = ''ee'', full_name = ''Ewe''\<rparr>))
          = Raises ''503 Service Unavailable'')
   \<and> fst (translate (start ''demo'' failing_stub)
        (JObj [(''text'', JStr ''hello''), (''source_lang'', JStr ''english''),
               (''target_lang'', JStr ''Ewe'')])) =
       Inr \<lparr>body = JObj [(''error'', JStr ''Translation error: 503 Service Unavailable'')],
            status = 500\<rparr>"
proof -
  have h: "map_of [(''text'', JStr ''hello''), (''source_lang'', JStr ''english''),
            (''target_lang'', JStr ''Ewe'')] ''text'' = Some (JStr ''hello'')
      \<and> map_of [(''text'', JStr ''hello''), (''source_lang'', JStr ''english''),
            (''target_lang'', JStr ''Ewe'')] ''source_lang'' = Some (JStr ''english'')
      \<and> map_of [(''text'', JStr ''hello''), (''source_lang'', JStr ''english''),
            (''target_lang'', JStr ''Ewe'')] ''target_lang'' = Some (JStr ''Ewe'')
      \<and> map_of (language_map (translation_service (start ''demo'' failing_stub)))
            (lower ''english'') = Some \<lparr>code = ''en-GB'', full_name = ''English''\<rparr>
      \<and> map_of (language_map (translation_service (start ''demo'' failing_stub)))
            (lower ''Ewe'') = Some \<lparr>code = ''ee'', full_name = ''Ewe''\<rparr>
      \<and> client (translation_service (start ''demo'' failing_stub))
            (outbound (start ''demo'' failing_stub))
            (provider_call (translation_service (start ''demo'' failing_stub)) (JStr ''hello'')
               (code \<lparr>code = ''en-GB'', full_name = ''English''\<rparr>)
               (code \<lparr>code = ''ee'', full_name = ''Ewe''\<rparr>))
          = Raises ''503 Service Unavailable''"
    by code_simp
  from provider_failure [THEN conjunct2, THEN conjunct1, rule_format, OF h] h show ?thesis
    by simp
qed

text \<open>
  Claim C5, as the spec states it, for any exception: it fails for an exception that is
  not of the class \<open>Exception\<close>. With both keys resolved and a Provider call that raises
  \<open>KeyboardInterrupt("interrupted")\<close>, line 72 does not take the exception: it leaves
  \<open>translate_text\<close> and then the handler, which gives no answer, so not the 500 one.
\<close>

theorem provider_failure_counterexample:
  "map_of (language_map (translation_service (start ''demo'' interrupt_stub)))
       (lower ''english'') = Some \<lparr>code = ''en-GB'', full_name = ''English''\<rparr>
   \<and> map_of (language_map (translation_service (start ''demo'' interrupt_stub)))
       (lower ''twi'') = Some \<lparr>code = ''ak'', full_name = ''Twi (Akan)''\<rparr>
   \<and> client (translation_service (start ''demo'' interrupt_stub))
         (outbound (start ''demo'' interrupt_stub))
         (provider_call (translation_service (start ''demo'' interrupt_stub)) (JStr ''hello'')
            ''en-GB'' ''ak'')
       = RaisesBase ''interrupted''
   \<and> fst (translate_text (translation_service (start ''demo'' interrupt_stub)) []
            (JStr ''hello'') ''english'' ''twi'') = Inl (BaseException ''interrupted'')
   \<and> fst (translate (start ''demo'' interrupt_stub)
            (JObj [(''text'', JStr ''hello''), (''source_lang'', JStr ''english''),
                   (''target_lang'', JStr ''twi'')])) = Inl (BaseException ''interrupted'')
   \<and> fst (translate (start ''demo'' interrupt_stub)
            (JObj [(''text'', JStr ''hello''), (''source_lang'', JStr ''english''),
                   (''target_lang'', JStr ''twi'')])) \<noteq>
       Inr \<lparr>body = JObj [(''error'', JStr ''Translation error: interrupted'')],
            status = 500\<rparr>"
  by code_simp

subsection \<open>A response without translations\<close>

text \<open>
  Claim C10. The second \<open>try\<close> also covers the construction of the result: when both
  keys resolve and the Provider returns no translation, the \<open>IndexError\<close> of
  \<open>translations[0]\<close> becomes the \<open>RuntimeError\<close> \<open>Translation error: \<close> followed by the
  \<open>str\<close> of that \<open>IndexError\<close>, and the handler answers with status 500. Whenever
  \<open>translate_text\<close> returns a result, both keys resolved and the Provider returned at
  least one translation.
\<close>

theorem no_translation:
  "(map_of (language_map self) source_lang = Some sd
      \<and> map_of (language_map self) target_lang = Some td
      \<and> client self calls (provider_call self text (code sd) (code td)) = Returns response
      \<and> translations_seq response = []
    \<longrightarrow> fst (translate_text self calls text source_lang target_lang) =
          Inl (RuntimeError (''Translation error: '' @ index_error response)))
   \<and> (map_of d ''text'' = Some text'
      \<and> map_of d ''source_lang'' = Some (JStr a)
      \<and> map_of d ''target_lang'' = Some (JStr b)
      \<and> map_of (language_map (translation_service s)) (lower a) = Some sd'
      \<and> map_of (language_map (translation_service s)) (lower b) = Some td'
      \<and> client (translation_service s) (outbound s)
            (provider_call (translation_service s) text' (code sd') (code td')) = Returns response'
      \<and> translations_seq response' = []
    \<longrightarrow> fst (translate s (JObj d)) =
          Inr \<lparr>body = JObj [(''error'', JStr (''Translation error: '' @ index_error response'))],
               status = 500\<rparr>)
   \<and> (fst (translate_text self calls text source_lang target_lang) = Inr r
    \<longrightarrow> (\<exists>sd td response.
           map_of (language_map self) source_lang = Some sd
         \<and> map_of (language_map self) target_lang = Some td
         \<and> client self calls (provider_call self text (code sd) (code td)) = Returns response
         \<and> translations_seq response \<noteq> []))"
proof (intro conjI impI)
  assume "map_of (language_map self) source_lang = Some sd
      \<and> map_of (language_map self) target_lang = Some td
      \<and> client self calls (provider_call self text (code sd) (code td)) = Returns response
      \<and> translations_seq response = []"
  then show "fst (translate_text self calls text source_lang target_lang) =
          Inl (RuntimeError (''Translation error: '' @ index_error response))"
    by (simp add: translate_text_resolved)
next
  assume "map_of d ''text'' = Some text'
      \<and> map_of d ''source_lang'' = Some (JStr a)
      \<and> map_of d ''target_lang'' = Some (JStr b)
      \<and> map_of (language_map (translation_service s)) (lower a) = Some sd'
      \<and> map_of (language_map (translation_service s)) (lower b) = Some td'
      \<and> client (translation_service s) (outbound s)
            (provider_call (translation_service s) text' (code sd') (code td')) = Returns response'
      \<and> translations_seq response' = []"
  then show "fst (translate s (JObj d)) =
          Inr \<lparr>body = JObj [(''error'', JStr (''Translation error: '' @ index_error response'))],
               status = 500\<rparr>"
    by (simp add: translate_object translate_text_resolved error_body_def str_dict_def)
next
  assume r: "fst (translate_text self calls text source_lang target_lang) = Inr r"
  show "\<exists>sd td response.
           map_of (language_map self) source_lang = Some sd
         \<and> map_of (language_map self) target_lang = Some td
         \<and> client self calls (provider_call self text (code sd) (code td)) = Returns response
         \<and> translations_seq response \<noteq> []"
  proof (cases "map_of (language_map self) source_lang")
    case None
    with r show ?thesis
      by (simp add: translate_text_invalid)
  next
    case (Some sd)
    note src = this
    show ?thesis
    proof (cases "map_of (language_map self) target_lang")
      case None
      with r show ?thesis
        by (simp add: translate_text_invalid)
    next
      case (Some td)
      with src r show ?thesis
        by (auto simp: translate_text_resolved split: provider_outcome.splits list.splits)
    qed
  qed
qed

theorem no_translation_witness:
  "(map_of (language_map (translation_service (start ''demo'' empty_stub))) ''twi''
        = Some \<lparr>code = ''ak'', full_name = ''Twi (Akan)''\<rparr>
      \<and> map_of (language_map (translation_service (start ''demo'' empty_stub))) ''ga''
        = Some \<lparr>code = ''gaa'', full_name = ''Ga''\<rparr>
      \<and> client (translation_service (start ''demo'' empty_stub)) []
            (provider_call (translation_service (start ''demo'' empty_stub)) (JStr ''akwaaba'')
               (code \<lparr>code = ''ak'', full_name = ''Twi (Akan)''\<rparr>)
               (code \<lparr>code = ''gaa'', full_name = ''Ga''\<rparr>))
          = Returns \<lparr>translations_seq = [], index_error = ''list index out of range''\<rparr>
      \<and> translations_seq \<lparr>translations_seq = [], index_error = ''list index out of range''\<rparr>
          = [])
   \<and> fst (translate_text (translation_service (start ''demo'' empty_stub)) []
            (JStr ''akwaaba'') ''twi'' ''ga'') =
       Inl (RuntimeError ''Translation error: list index out of range'')"
proof -
  have h: "map_of (language_map (translation_service (start ''demo'' empty_stub))) ''twi''
        = Some \<lparr>code = ''ak'', full_name = ''Twi (Akan)''\<rparr>
      \<and> map_of (language_map (translation_service (start ''demo'' empty_stub))) ''ga''
        = Some \<lparr>code = ''gaa'', full_name = ''Ga''\<rparr>
      \<and> client (translation_service (start ''demo'' empty_stub)) []
            (provider_call (translation_service (start ''demo'' empty_stub)) (JStr ''akwaaba'')
               (code \<lparr>code = ''ak'', full_name = ''Twi (Akan)''\<rparr>)
               (code \<lparr>code = ''gaa'', full_name = ''Ga''\<rparr>))
          = Returns \<lparr>translations_seq = [], index_error = ''list index out of range''\<rparr>
      \<and> translations_seq \<lparr>translations_seq = [], index_error = ''list index out of range''\<rparr>
          = []"
    by code_simp
  from no_translation [THEN conjunct1, rule_format, OF h] h show ?thesis
    by simp
qed

subsection \<open>Lower-casing of the language names\<close>



subsection \<open>Requests that leave the handler with an exception\<close>

text \<open>
  Claim C9. For the body \<open>null\<close> the membership test of line 93 raises \<open>TypeError\<close>, and
  for an object that has the three keys but whose \<open>source_lang\<close> or \<open>target_lang\<close> is
  not a string, \<open>.lower()\<close> raises \<open>AttributeError\<close>. No \<open>except\<close> clause of the handler
  takes either: the handler gives no answer at all, neither of the two 400 answers nor
  the 500 one, and the state is as it was.
\<close>

theorem unhandled_exceptions:
  "translate s JNull = (Inl TypeError, s)
   \<and> (map_of d ''text'' = Some text
      \<and> map_of d ''source_lang'' = Some sv
      \<and> map_of d ''target_lang'' = Some tv
      \<and> ((\<forall>x. sv \<noteq> JStr x) \<or> (\<forall>x. tv \<noteq> JStr x))
    \<longrightarrow> translate s (JObj d) = (Inl AttributeError, s)
        \<and> (\<forall>r. fst (translate s (JObj d)) \<noteq> Inr r))
   \<and> translate (start ''demo'' upper_stub)
        (JObj [(''text'', JStr ''hello''), (''source_lang'', JNum 5),
               (''target_lang'', JStr ''twi'')]) =
       (Inl AttributeError, start ''demo'' upper_stub)"
proof (intro conjI impI)
  show "translate s JNull = (Inl TypeError, s)"
    by (simp add: translate_def)
next
  assume h: "map_of d ''text'' = Some text
      \<and> map_of d ''source_lang'' = Some sv
      \<and> map_of d ''target_lang'' = Some tv
      \<and> ((\<forall>x. sv \<noteq> JStr x) \<or> (\<forall>x. tv \<noteq> JStr x))"
  then show e: "translate s (JObj d) = (Inl AttributeError, s)"
    by (intro translate_not_str [of d "text" sv tv]) simp_all
  then show "\<forall>r. fst (translate s (JObj d)) \<noteq> Inr r"
    by simp
next
  have "\<forall>x. JNum 5 \<noteq> JStr x"
    by simp
  then show "translate (start ''demo'' upper_stub)
        (JObj [(''text'', JStr ''hello''), (''source_lang'', JNum 5),
               (''target_lang'', JStr ''twi'')]) =
       (Inl AttributeError, start ''demo'' upper_stub)"
    by (intro translate_not_str [of _ "JStr ''hello''" "JNum 5" "JStr ''twi''"]) simp_all
qed

theorem unhandled_exceptions_witness:
  "(map_of [(''text'', JStr ''hello''), (''source_lang'', JStr ''english''),
            (''target_lang'', JNull)] ''text'' = Some (JStr ''hello'')
      \<and> map_of [(''text'', JStr ''hello''), (''source_lang'', JStr ''english''),
            (''target_lang'', JNull)] ''source_lang'' = Some (JStr ''english'')
      \<and> map_of [(''text'', JStr ''hello''), (''source_lang'', JStr ''english''),
            (''target_lang'', JNull)] ''target_lang'' = Some JNull
      \<and> ((\<forall>x. JStr ''english'' \<noteq> JStr x) \<or> (\<forall>x. JNull \<noteq> JStr x)))
   \<and> translate (start ''demo'' upper_stub)
        (JObj [(''text'', JStr ''hello''), (''source_lang'', JStr ''english''),
               (''target_lang'', JNull)]) =
       (Inl AttributeError, start ''demo'' upper_stub)"
proof -
  have h: "map_of [(''text'', JStr ''hello''), (''source_lang'', JStr ''english''),
            (''target_lang'', JNull)] ''text'' = Some (JStr ''hello'')
      \<and> map_of [(''text'', JStr ''hello''), (''source_lang'', JStr ''english''),
            (''target_lang'', JNull)] ''source_lang'' = Some (JStr ''english'')
      \<and> map_of [(''text'', JStr ''hello''), (''source_lang'', JStr ''english''),
            (''target_lang'', JNull)] ''target_lang'' = Some JNull
      \<and> ((\<forall>x. JStr ''english'' \<noteq> JStr x) \<or> (\<forall>x. JNull \<noteq> JStr x))"
    by simp
  from unhandled_exceptions [THEN conjunct2, THEN conjunct1, rule_format, OF h] h
  show ?thesis
    by simp
qed

subsection \<open>Runs of requests\<close>

lemma handle_service: "translation_service (snd (handle s r)) = translation_service s"
  by (cases r) (simp_all add: translate_service supported_languages_def)

lemma run_Cons:
  "run s (r # rs) =
     (fst (handle s r) # fst (run (snd (handle s r)) rs), snd (run (snd (handle s r)) rs))"
  by (simp split: prod.splits)

lemma run_service: "translation_service (snd (run s rs)) = translation_service s"
proof (induction rs arbitrary: s)
  case Nil
  show ?case by simp
next
  case (Cons r rs)
  show ?case
    by (simp only: run_Cons snd_conv Cons.IH handle_service)
qed

lemma run_length: "length (fst (run s rs)) = length rs"
proof (induction rs arbitrary: s)
  case Nil
  show ?case by simp
next
  case (Cons r rs)
  show ?case
    by (simp only: run_Cons fst_conv list.size Cons.IH)
qed

lemma run_nth:
  "i < length rs \<Longrightarrow> fst (run s rs) ! i = fst (handle (snd (run s (take i rs))) (rs ! i))"
proof (induction rs arbitrary: s i)
  case Nil
  then show ?case by simp
next
  case (Cons r rs)
  show ?case
  proof (cases i)
    case 0
    then show ?thesis
      by (simp add: run_Cons del: run.simps(2))
  next
    case (Suc j)
    with Cons.prems have "j < length rs"
      by simp
    from Cons.IH [OF this, of "snd (handle s r)"] Suc show ?thesis
      by (simp add: run_Cons del: run.simps(2))
  qed
qed

subsection \<open>The outbound calls of one request\<close>

lemma translate_no_call:
  assumes "\<not> (\<exists>d tx a b. data = JObj d
             \<and> map_of d ''text'' = Some tx
             \<and> map_of d ''source_lang'' = Some (JStr a)
             \<and> map_of d ''target_lang'' = Some (JStr b)
             \<and> map_of (language_map (translation_service s)) (lower a) \<noteq> None
             \<and> map_of (language_map (translation_service s)) (lower b) \<noteq> None)"
  shows "snd (translate s data) = s"
proof (cases "\<exists>d. data = JObj d")
  case False
  then show ?thesis
    by (simp add: translate_not_object)
next
  case True
  then obtain d where d: "data = JObj d"
    by blast
  show ?thesis
  proof (cases "map_of d ''text'' = None \<or> map_of d ''source_lang'' = None
                  \<or> map_of d ''target_lang'' = None")
    case True
    then show ?thesis
      by (simp add: d translate_missing)
  next
    case False
    then obtain tx sv tv where keys: "map_of d ''text'' = Some tx"
      "map_of d ''source_lang'' = Some sv" "map_of d ''target_lang'' = Some tv"
      by auto
    show ?thesis
    proof (cases "(\<forall>x. sv \<noteq> JStr x) \<or> (\<forall>x. tv \<noteq> JStr x)")
      case True
      with keys have "translate s (JObj d) = (Inl AttributeError, s)"
        by (intro translate_not_str [of d tx sv tv])
      then show ?thesis
        by (simp add: d)
    next
      case False
      then obtain a b where ab: "sv = JStr a" "tv = JStr b"
        by blast
      from assms d keys ab
      have "map_of (language_map (translation_service s)) (lower a) = None
              \<or> map_of (language_map (translation_service s)) (lower b) = None"
        by blast
      then have "translate_text (translation_service s) (outbound s) tx (lower a) (lower b)
                   = (Inl (ValueError ''Invalid language names''), outbound s)"
        by (rule translate_text_invalid)
      with keys ab show ?thesis
        by (simp add: d translate_object)
    qed
  qed
qed

lemma translate_one_call:
  assumes "map_of d ''text'' = Some tx"
    and "map_of d ''source_lang'' = Some (JStr a)"
    and "map_of d ''target_lang'' = Some (JStr b)"
    and "map_of (language_map (translation_service s)) (lower a) = Some sd"
    and "map_of (language_map (translation_service s)) (lower b) = Some td"
  shows "outbound (snd (translate s (JObj d))) =
           outbound s @ [provider_call (translation_service s) tx (code sd) (code td)]"
proof -
  obtain res where res: "translate_text (translation_service s) (outbound s) tx (lower a) (lower b)
      = (res, outbound s @ [provider_call (translation_service s) tx (code sd) (code td)])"
    by (simp add: translate_text_resolved [OF assms(4,5)])
  show ?thesis
    by (cases res) (simp_all add: translate_object [OF assms(1-3)] res)
qed

text \<open>
  Claim C8. One call of \<open>translate_text\<close> adds at most one call to the outbound calls:
  exactly one, the call of lines 58 to 64, when both keys resolve, whatever the Provider
  then does (also when it raises: there is no second attempt), and none otherwise. One
  request to the handler adds exactly one call when its body is an object with the three
  keys whose two language names are strings that resolve in lower case, and none in every
  other case, so none when a key is missing or a language name is unknown.
\<close>

theorem provider_calls:
  "(\<exists>new. snd (translate_text self calls text source_lang target_lang) = calls @ new
       \<and> length new \<le> 1
       \<and> (length new = 1 \<longleftrightarrow>
            map_of (language_map self) source_lang \<noteq> None
          \<and> map_of (language_map self) target_lang \<noteq> None))
   \<and> (map_of (language_map self) source_lang = Some sd
      \<and> map_of (language_map self) target_lang = Some td
    \<longrightarrow> snd (translate_text self calls text source_lang target_lang) =
          calls @ [provider_call self text (code sd) (code td)])
   \<and> (\<exists>new. outbound (snd (translate s data)) = outbound s @ new
       \<and> length new \<le> 1
       \<and> (length new = 1 \<longleftrightarrow>
            (\<exists>d tx a b. data = JObj d
               \<and> map_of d ''text'' = Some tx
               \<and> map_of d ''source_lang'' = Some (JStr a)
               \<and> map_of d ''target_lang'' = Some (JStr b)
               \<and> map_of (language_map (translation_service s)) (lower a) \<noteq> None
               \<and> map_of (language_map (translation_service s)) (lower b) \<noteq> None)))"
proof (intro conjI impI)
  show "\<exists>new. snd (translate_text self calls text source_lang target_lang) = calls @ new
       \<and> length new \<le> 1
       \<and> (length new = 1 \<longleftrightarrow>
            map_of (language_map self) source_lang \<noteq> None
          \<and> map_of (language_map self) target_lang \<noteq> None)"
  proof (cases "map_of (language_map self) source_lang = None
                  \<or> map_of (language_map self) target_lang = None")
    case True
    then have "snd (translate_text self calls text source_lang target_lang) = calls @ []"
      by (simp add: translate_text_invalid)
    with True show ?thesis
      by (intro exI [of _ "[]"]) auto
  next
    case False
    then obtain sd' td' where r: "map_of (language_map self) source_lang = Some sd'"
      "map_of (language_map self) target_lang = Some td'"
      by auto
    then have "snd (translate_text self calls text source_lang target_lang) =
                 calls @ [provider_call self text (code sd') (code td')]"
      by (simp add: translate_text_resolved)
    with r show ?thesis
      by (intro exI [of _ "[provider_call self text (code sd') (code td')]"]) simp
  qed
next
  assume "map_of (language_map self) source_lang = Some sd
      \<and> map_of (language_map self) target_lang = Some td"
  then show "snd (translate_text self calls text source_lang target_lang) =
          calls @ [provider_call self text (code sd) (code td)]"
    by (simp add: translate_text_resolved)
next
  let ?C = "\<exists>d tx a b. data = JObj d
               \<and> map_of d ''text'' = Some tx
               \<and> map_of d ''source_lang'' = Some (JStr a)
               \<and> map_of d ''target_lang'' = Some (JStr b)
               \<and> map_of (language_map (translation_service s)) (lower a) \<noteq> None
               \<and> map_of (language_map (translation_service s)) (lower b) \<noteq> None"
  show "\<exists>new. outbound (snd (translate s data)) = outbound s @ new
       \<and> length new \<le> 1 \<and> (length new = 1 \<longleftrightarrow> ?C)"
  proof (cases ?C)
    case False
    then have "snd (translate s data) = s"
      by (rule translate_no_call)
    then have "outbound (snd (translate s data)) = outbound s @ []"
      by simp
    with False show ?thesis
      by (intro exI [of _ "[]"]) simp
  next
    case True
    then obtain d tx a b sd' td' where d: "data = JObj d"
      and keys: "map_of d ''text'' = Some tx" "map_of d ''source_lang'' = Some (JStr a)"
        "map_of d ''target_lang'' = Some (JStr b)"
      and r: "map_of (language_map (translation_service s)) (lower a) = Some sd'"
        "map_of (language_map (translation_service s)) (lower b) = Some td'"
      by auto
    have "outbound (snd (translate s data)) =
            outbound s @ [provider_call (translation_service s) tx (code sd') (code td')]"
      unfolding d by (rule translate_one_call [OF keys r])
    with True show ?thesis
      by (intro exI [of _ "[provider_call (translation_service s) tx (code sd') (code td')]"])
        simp
  qed
qed

theorem provider_calls_witness:
  "(map_of (language_map (translation_service (start ''demo'' failing_stub))) ''english''
        = Some \<lparr>code = ''en-GB'', full_name = ''English''\<rparr>
      \<and> map_of (language_map (translation_service (start ''demo'' failing_stub))) ''twi''
        = Some \<lparr>code = ''ak'', full_name = ''Twi (Akan)''\<rparr>)
   \<and> translate_text (translation_service (start ''demo'' failing_stub)) [] (JStr ''hello'')
        ''english'' ''twi'' =
       (Inl (RuntimeError ''Translation error: 503 Service Unavailable''),
        [\<lparr>contents = [JStr ''hello''], target_language_code = ''ak'',
          source_language_code = ''en-GB'', parent = ''projects/demo/locations/global'',
          mime_type = ''text/plain''\<rparr>])"
proof -
  have h: "map_of (language_map (translation_service (start ''demo'' failing_stub))) ''english''
        = Some \<lparr>code = ''en-GB'', full_name = ''English''\<rparr>
      \<and> map_of (language_map (translation_service (start ''demo'' failing_stub))) ''twi''
        = Some \<lparr>code = ''ak'', full_name = ''Twi (Akan)''\<rparr>"
    by code_simp
  have e: "fst (translate_text (translation_service (start ''demo'' failing_stub)) []
             (JStr ''hello'') ''english'' ''twi'') =
           Inl (RuntimeError ''Translation error: 503 Service Unavailable'')"
    by code_simp
  have c: "provider_call (translation_service (start ''demo'' failing_stub)) (JStr ''hello'')
             (code \<lparr>code = ''en-GB'', full_name = ''English''\<rparr>)
             (code \<lparr>code = ''ak'', full_name = ''Twi (Akan)''\<rparr>) =
           \<lparr>contents = [JStr ''hello''], target_language_code = ''ak'',
            source_language_code = ''en-GB'', parent = ''projects/demo/locations/global'',
            mime_type = ''text/plain''\<rparr>"
    by code_simp
  from provider_calls [THEN conjunct2, THEN conjunct1, rule_format, OF h,
      of "[]" "JStr ''hello''"] e c h
  show ?thesis
    by (simp add: prod_eq_iff)
qed

subsection \<open>The supported languages\<close>

text \<open>
  Claim C7. For the service that \<open>__init__\<close> builds, \<open>get_supported_languages\<close> returns a
  new dictionary with the four keys \<open>english\<close>, \<open>twi\<close>, \<open>ga\<close>, \<open>ewe\<close> and their display
  names, and the handler answers with that dictionary and status 200, leaving the whole
  state as it was. No request changes \<open>translation_service\<close>, so in any run of requests,
  in any order and with any number of translations in between, every request for the
  languages gets this same answer.
\<close>

theorem languages_snapshot:
  assumes "init getenv the_client = Inr (translation_service s)"
  shows "get_supported_languages (translation_service s) =
           [(''english'', ''English''), (''twi'', ''Twi (Akan)''), (''ga'', ''Ga''),
            (''ewe'', ''Ewe'')]
    \<and> supported_languages s =
         (Inr \<lparr>body = JObj [(''english'', JStr ''English''), (''twi'', JStr ''Twi (Akan)''),
                            (''ga'', JStr ''Ga''), (''ewe'', JStr ''Ewe'')],
               status = 200\<rparr>, s)
    \<and> translation_service (snd (run s rs)) = translation_service s
    \<and> (\<forall>i < length rs. rs ! i = GetLanguages \<longrightarrow>
          fst (run s rs) ! i =
            Inr \<lparr>body = JObj [(''english'', JStr ''English''), (''twi'', JStr ''Twi (Akan)''),
                              (''ga'', JStr ''Ga''), (''ewe'', JStr ''Ewe'')],
                 status = 200\<rparr>)"
proof -
  let ?langs = "[(''english'', ''English''), (''twi'', ''Twi (Akan)''), (''ga'', ''Ga''),
                 (''ewe'', ''Ewe'')]"
  have langs: "get_supported_languages (translation_service s') = ?langs"
    if "translation_service s' = translation_service s" for s'
    using that by (simp add: get_supported_languages_def init_Inr [OF assms])
  have answer: "supported_languages s' =
         (Inr \<lparr>body = JObj [(''english'', JStr ''English''), (''twi'', JStr ''Twi (Akan)''),
                            (''ga'', JStr ''Ga''), (''ewe'', JStr ''Ewe'')],
               status = 200\<rparr>, s')"
    if "translation_service s' = translation_service s" for s'
    by (simp add: supported_languages_def langs [OF that] str_dict_def)
  have "fst (run s rs) ! i =
            Inr \<lparr>body = JObj [(''english'', JStr ''English''), (''twi'', JStr ''Twi (Akan)''),
                              (''ga'', JStr ''Ga''), (''ewe'', JStr ''Ewe'')],
                 status = 200\<rparr>"
    if "i < length rs" and "rs ! i = GetLanguages" for i
  proof -
    have "translation_service (snd (run s (take i rs))) = translation_service s"
      by (rule run_service)
    from answer [OF this] that show ?thesis
      by (simp add: run_nth)
  qed
  with langs [of s] answer [of s] show ?thesis
    by (simp add: run_service)
qed

theorem languages_snapshot_witness:
  "init (Some ''demo'') upper_stub = Inr (translation_service (start ''demo'' upper_stub))
   \<and> fst (run (start ''demo'' upper_stub)
        [GetLanguages,
         PostTranslate (JObj [(''text'', JStr ''hello''), (''source_lang'', JStr ''english''),
                              (''target_lang'', JStr ''twi'')]),
         GetLanguages]) ! 2 =
       Inr \<lparr>body = JObj [(''english'', JStr ''English''), (''twi'', JStr ''Twi (Akan)''),
                         (''ga'', JStr ''Ga''), (''ewe'', JStr ''Ewe'')],
            status = 200\<rparr>"
proof -
  let ?rs = "[GetLanguages,
         PostTranslate (JObj [(''text'', JStr ''hello''), (''source_lang'', JStr ''english''),
                              (''target_lang'', JStr ''twi'')]),
         GetLanguages]"
  have h: "init (Some ''demo'') upper_stub = Inr (translation_service (start ''demo'' upper_stub))"
    by (rule init_demo)
  have "2 < length ?rs" and "?rs ! 2 = GetLanguages"
    by simp_all
  with languages_snapshot [OF h, of ?rs] h show ?thesis
    by blast
qed

end
